theory Spec2Isabelle
  imports Main "HOL-Library.AList"
begin

section \<open>Python values and exceptions\<close>

text \<open>
  The exceptions the client can raise, as values. A function that can raise returns
  \<open>py_error + 'a\<close>, with \<open>Inl\<close> for the exception.
\<close>

datatype py_error =
  KeyError | TypeError | ValueError | AttributeError | JSONDecodeError | RequestException

section \<open>Utility functions\<close>

subsection \<open>\<open>split_list\<close>\<close>

text \<open>
  \<^verbatim>\<open>range(start, stop, step)\<close> for a non-zero step, as the list of its elements.
  A zero step raises in Python and is handled by the caller of \<open>py_range\<close>.
\<close>

function py_range :: "int \<Rightarrow> int \<Rightarrow> int \<Rightarrow> int list" where
  "py_range i stop step =
     (if 0 < step \<and> i < stop then i # py_range (i + step) stop step
      else if step < 0 \<and> stop < i then i # py_range (i + step) stop step
      else [])"
  by pat_completeness auto
termination
  by (relation "measure (\<lambda>(i, stop, step). nat (if 0 < step then stop - i else i - stop))") auto

declare py_range.simps [simp del]

text \<open>
  A slice bound of Python: a negative bound counts from the end, and every bound is
  clamped to the list.
\<close>

definition slice_bound :: "nat \<Rightarrow> int \<Rightarrow> nat" where
  "slice_bound n i = (if i < 0 then nat (max (int n + i) 0) else min (nat i) n)"

text \<open>\<^verbatim>\<open>xs[i:j]\<close>\<close>

definition py_slice :: "'a list \<Rightarrow> int \<Rightarrow> int \<Rightarrow> 'a list" where
  "py_slice xs i j =
     (let lo = slice_bound (length xs) i; hi = slice_bound (length xs) j
      in take (hi - lo) (drop lo xs))"

text \<open>
  \<^verbatim>\<open>
  def split_list(ori_list, length):
      return tuple(ori_list[i: i+length] for i in range(0, len(ori_list), length))
  \<close>
  \<^verbatim>\<open>range\<close> raises ValueError when its step is zero.
\<close>

definition split_list :: "'a list \<Rightarrow> int \<Rightarrow> py_error + 'a list list" where
  "split_list ori_list len =
     (if len = 0 then Inl ValueError
      else Inr (map (\<lambda>i. py_slice ori_list i (i + len))
                  (py_range 0 (int (length ori_list)) len)))"


section \<open>Decoded JSON and Python containers\<close>

text \<open>
  \<open>bnd\<close> sequences two computations that can raise: the first exception wins.
\<close>

definition bnd :: "py_error + 'a \<Rightarrow> ('a \<Rightarrow> py_error + 'b) \<Rightarrow> py_error + 'b" where
  "bnd r f = (case r of Inl e \<Rightarrow> Inl e | Inr v \<Rightarrow> f v)"

text \<open>A loop body run over a list in order; the first exception ends the loop.\<close>

fun for_each :: "('a \<Rightarrow> py_error + 'b) \<Rightarrow> 'a list \<Rightarrow> py_error + 'b list" where
  "for_each f [] = Inr []"
| "for_each f (x # xs) = bnd (f x) (\<lambda>y. bnd (for_each f xs) (\<lambda>ys. Inr (y # ys)))"

text \<open>
  What \<^verbatim>\<open>response.json()\<close> returns. A Python dict keeps insertion order, so an object is
  an association list; \<open>JNull\<close> is Python's \<^verbatim>\<open>None\<close>. Numbers are only carried by the
  client, never computed with.
\<close>

datatype json =
  JNull | JBool bool | JNum int | JStr string | JList "json list" | JObj "(string \<times> json) list"

text \<open>\<^verbatim>\<open>d[k] = v\<close> on a dict: an existing key keeps its place, a new key goes last.\<close>

definition dict_set :: "string \<Rightarrow> json \<Rightarrow> (string \<times> json) list \<Rightarrow> (string \<times> json) list" where
  "dict_set k v d = AList.update k v d"

text \<open>
  \<^verbatim>\<open>x[k]\<close> with a string key: KeyError on a dict without the key, TypeError on every
  value that is not a dict.
\<close>

fun py_getitem :: "json \<Rightarrow> string \<Rightarrow> py_error + json" where
  "py_getitem (JObj kvs) k = (case map_of kvs k of Some v \<Rightarrow> Inr v | None \<Rightarrow> Inl KeyError)"
| "py_getitem _ k = Inl TypeError"

text \<open>
  \<^verbatim>\<open>for x in v\<close>: a list gives its elements, a dict its keys, a string its characters;
  the other values are not iterable.
\<close>

fun py_iter :: "json \<Rightarrow> py_error + json list" where
  "py_iter (JList xs) = Inr xs"
| "py_iter (JObj kvs) = Inr (map (\<lambda>kv. JStr (fst kv)) kvs)"
| "py_iter (JStr s) = Inr (map (\<lambda>c. JStr [c]) s)"
| "py_iter _ = Inl TypeError"

text \<open>\<^verbatim>\<open>v.items()\<close>: only a dict has the method.\<close>

fun py_items :: "json \<Rightarrow> py_error + (string \<times> json) list" where
  "py_items (JObj kvs) = Inr kvs"
| "py_items _ = Inl AttributeError"

section \<open>Timestamps\<close>

text \<open>
  The fields of a \<^verbatim>\<open>datetime\<close> that the four formats read. Python keeps them in range
  (year 1 to 9999, month 1 to 12, day 1 to 31, hour below 24, minute and second below 60).
\<close>

record datetime =
  year :: nat
  month :: nat
  day :: nat
  hour :: nat
  minute :: nat
  second :: nat

definition digit :: "nat \<Rightarrow> char" where
  "digit n = ''0123456789'' ! (n mod 10)"

definition pad2 :: "nat \<Rightarrow> string" where
  "pad2 n = [digit (n div 10), digit n]"

text \<open>The decimal digits of a number, without padding.\<close>

function decimal :: "nat \<Rightarrow> string" where
  "decimal n = (if n < 10 then [digit n] else decimal (n div 10) @ [digit n])"
  by pat_completeness auto
termination
  by (relation "measure (\<lambda>n. n)") (auto simp: div_less_dividend)

declare decimal.simps [simp del]

text \<open>
  \<^verbatim>\<open>strftime\<close> for the directives the client uses. \<^verbatim>\<open>%m %d %H %M %S\<close> are two digits
  each, zero-padded. \<^verbatim>\<open>%Y\<close> is the year in decimal as the C library of the platform
  renders it: on Linux (glibc) without padding, so that the year 999 gives \<^verbatim>\<open>999\<close> and
  only the years from 1000 on give four digits. Every other character is copied.
\<close>

definition directive :: "datetime \<Rightarrow> char \<Rightarrow> string" where
  "directive dt c =
     (if c = CHR ''Y'' then decimal (year dt)
      else if c = CHR ''m'' then pad2 (month dt)
      else if c = CHR ''d'' then pad2 (day dt)
      else if c = CHR ''H'' then pad2 (hour dt)
      else if c = CHR ''M'' then pad2 (minute dt)
      else if c = CHR ''S'' then pad2 (second dt)
      else [CHR ''%'', c])"

fun strftime :: "datetime \<Rightarrow> string \<Rightarrow> string" where
  "strftime dt (c # d # rest) =
     (if c = CHR ''%'' then directive dt d @ strftime dt rest
      else c # strftime dt (d # rest))"
| "strftime dt cs = cs"

text \<open>
  The argument of \<open>convert_datetime_precision\<close>: a string, an object with
  \<^verbatim>\<open>strftime\<close>, or any other value (which has no \<^verbatim>\<open>strftime\<close>).
\<close>

datatype timestamp = TsStr string | TsDatetime datetime | TsOther

text \<open>
  \<^verbatim>\<open>
  def convert_datetime_precision(timestamp, time_interval):
      if isinstance(timestamp, str):
          timestamp = dateutil.parser.parse(timestamp)
      params = {"d": timestamp.strftime("%Y-%m-%d"),
                "h": timestamp.strftime("%Y-%m-%d %H"),
                "M": timestamp.strftime("%Y-%m-%d %H:%M"),
                "s": timestamp.strftime("%Y-%m-%d %H:%M:%S")}
      try:
          return params[time_interval]
      except:
          raise ValueError('time_interval should be "d, h, M, s"')
  \<close>
  \<^verbatim>\<open>dateutil.parser.parse\<close> is a library function and a parameter here: it returns the
  parsed instant or raises. \<open>as_datetime\<close> is the object whose \<^verbatim>\<open>strftime\<close> is called;
  a value without that method raises AttributeError there, before the \<^verbatim>\<open>try\<close>.
\<close>

definition as_datetime ::
  "(string \<Rightarrow> py_error + datetime) \<Rightarrow> timestamp \<Rightarrow> py_error + datetime" where
  "as_datetime dateutil_parse ts =
     (case ts of
        TsStr s \<Rightarrow> dateutil_parse s
      | TsDatetime dt \<Rightarrow> Inr dt
      | TsOther \<Rightarrow> Inl AttributeError)"

definition convert_datetime_precision ::
  "(string \<Rightarrow> py_error + datetime) \<Rightarrow> timestamp \<Rightarrow> string \<Rightarrow> py_error + string" where
  "convert_datetime_precision dateutil_parse ts time_interval =
     bnd (as_datetime dateutil_parse ts)
       (\<lambda>dt. let params = [(''d'', strftime dt ''%Y-%m-%d''),
                           (''h'', strftime dt ''%Y-%m-%d %H''),
                           (''M'', strftime dt ''%Y-%m-%d %H:%M''),
                           (''s'', strftime dt ''%Y-%m-%d %H:%M:%S'')]
             in case map_of params time_interval of
                  Some r \<Rightarrow> Inr r
                | None \<Rightarrow> Inl ValueError)"

text \<open>
  A string has the shape of a pattern such as \<^verbatim>\<open>YYYY-MM-DD HH\<close> when it has a decimal
  digit wherever the pattern has one of the letters \<^verbatim>\<open>Y M D H S\<close> and the pattern's own
  character everywhere else.
\<close>

definition is_digit :: "char \<Rightarrow> bool" where
  "is_digit c = (c \<in> set ''0123456789'')"

definition has_shape :: "string \<Rightarrow> string \<Rightarrow> bool" where
  "has_shape pat s =
     list_all2 (\<lambda>p c. if p \<in> set ''YMDHS'' then is_digit c else c = p) pat s"

section \<open>Day-begin timestamps\<close>

text \<open>
  A calendar date is the number of its day, counted from 1970-01-01; subtracting a
  \<^verbatim>\<open>timedelta(days=n)\<close> subtracts \<open>n\<close>. \<^verbatim>\<open>time.strptime(str(d), '%Y-%m-%d')\<close> is the
  broken-down time of that date with the clock fields zero.
\<close>

record struct_time =
  tm_date :: int
  tm_hour :: int
  tm_min :: int
  tm_sec :: int

definition strptime_date :: "int \<Rightarrow> struct_time" where
  "strptime_date d = \<lparr>tm_date = d, tm_hour = 0, tm_min = 0, tm_sec = 0\<rparr>"

text \<open>
  \<^verbatim>\<open>time.mktime\<close> reads a broken-down time as local time. The time zone of the machine
  is the parameter \<open>tz\<close>: the offset from UTC, in seconds, in force at a local wall-clock
  time (itself counted in seconds from 1970-01-01 00:00:00 on the local calendar).
\<close>

definition mktime :: "(int \<Rightarrow> int) \<Rightarrow> struct_time \<Rightarrow> int" where
  "mktime tz st =
     (let local = 86400 * tm_date st + 3600 * tm_hour st + 60 * tm_min st + tm_sec st
      in local - tz local)"

text \<open>
  \<^verbatim>\<open>
  def convert_to_day_begin(date_time):
      return int(time.mktime(time.strptime(str(date_time), '%Y-%m-%d')))
  \<close>
\<close>

definition convert_to_day_begin :: "(int \<Rightarrow> int) \<Rightarrow> int \<Rightarrow> int" where
  "convert_to_day_begin tz date_time = mktime tz (strptime_date date_time)"

section \<open>The client\<close>

definition PRODUCTION_BASE_URL :: string where
  "PRODUCTION_BASE_URL = ''https://pro-api.coinmarketcap.com''"

definition SANDBOX_BASE_URL :: string where
  "SANDBOX_BASE_URL = ''https://sandbox-api.coinmarketcap.com''"

definition API_TYPE_MAP :: "(string \<times> int) list" where
  "API_TYPE_MAP = [(''standard'', 30), (''professional'', 365)]"

text \<open>A \<^verbatim>\<open>requests.Session\<close>, as far as the client uses it: its headers.\<close>

record http_session =
  headers :: "(string \<times> string) list"

text \<open>The instance attributes; \<open>private_session\<close> is \<^verbatim>\<open>self._session\<close>.\<close>

record client =
  api_key :: string
  version :: string
  default_timeout :: int
  url :: string
  private_session :: "http_session option"
  default_historical_data_length :: int
  default_start_date :: int
  default_end_date :: int

text \<open>
  \<^verbatim>\<open>
  def __init__(self, api_key, is_sandbox=True, api_type="standard", default_timeout=10):
      self.api_key = api_key
      self.version = "v1"
      self.default_timeout = default_timeout
      self.url = "{}/{}".format(self.SANDBOX_BASE_URL if is_sandbox
                                else self.PRODUCTION_BASE_URL, self.version)
      self._session = None
      if api_type in self.API_TYPE_MAP.keys():
          # minus 1 make sure no error occurs
          self.default_historical_data_length = self.API_TYPE_MAP[api_type] - 1
      today_begin = self.convert_to_day_begin(datetime.date.today())
      start_date = self.convert_to_day_begin(
          datetime.date.today() - datetime.timedelta(days=self.default_historical_data_length))
      self.default_start_date = start_date
      self.default_end_date = today_begin
  \<close>
  The class attribute \<^verbatim>\<open>default_historical_data_length = 29\<close> is what an instance reads
  when the constructor does not assign it. \<^verbatim>\<open>datetime.date.today()\<close> is called twice:
  \<open>today1\<close> and \<open>today2\<close> are the dates the two calls return, \<open>tz\<close> the machine's time zone.
\<close>

definition init ::
  "(int \<Rightarrow> int) \<Rightarrow> int \<Rightarrow> int \<Rightarrow> string \<Rightarrow> bool \<Rightarrow> string \<Rightarrow> int \<Rightarrow> client" where
  "init tz today1 today2 key is_sandbox api_type timeout =
     (let v = ''v1'';
          u = (if is_sandbox then SANDBOX_BASE_URL else PRODUCTION_BASE_URL) @ ''/'' @ v;
          len = (case map_of API_TYPE_MAP api_type of Some n \<Rightarrow> n - 1 | None \<Rightarrow> 29);
          today_begin = convert_to_day_begin tz today1;
          start_date = convert_to_day_begin tz (today2 - len)
      in \<lparr>api_key = key, version = v, default_timeout = timeout, url = u,
          private_session = None, default_historical_data_length = len,
          default_start_date = start_date, default_end_date = today_begin\<rparr>)"

text \<open>
  \<^verbatim>\<open>
  @property
  def session(self):
      if not self._session:
          self._session = requests.Session()
          self._session.headers.update({
              "Content-Type": "application/json",
              "X-CMC_PRO_API_KEY": self.api_key
          })
      return self._session
  \<close>
  A \<^verbatim>\<open>Session\<close> object is always true, so only \<^verbatim>\<open>None\<close> takes the branch.
  \<^verbatim>\<open>requests.Session()\<close> is a library call: \<open>fresh\<close> is the session it returns, with the
  headers that the installed version of the library gives a new session. The update
  sets the two headers in the order written; a header that is there keeps its place.
\<close>

definition session :: "http_session \<Rightarrow> client \<Rightarrow> http_session \<times> client" where
  "session fresh c =
     (case private_session c of
        Some s \<Rightarrow> (s, c)
      | None \<Rightarrow>
          (let s = fresh\<lparr>headers := AList.update ''X-CMC_PRO_API_KEY'' (api_key c)
                                    (AList.update ''Content-Type'' ''application/json''
                                       (headers fresh))\<rparr>
           in (s, c\<lparr>private_session := Some s\<rparr>)))"

section \<open>Requests, responses and the outside world\<close>

record request =
  req_url :: string
  req_params :: "(string \<times> json) list option"
  req_timeout :: int
  req_headers :: "(string \<times> string) list"

text \<open>
  A response: its status code, and what \<^verbatim>\<open>response.json()\<close> gives (\<open>None\<close> when the body
  is not JSON and decoding raises).
\<close>

record response =
  status_code :: int
  decoded :: "json option"

datatype printout = PrintJson json | PrintStr string

text \<open>
  What the client does to the outside: the requests it sent, the seconds it slept and
  the values it printed, each in order.
\<close>

record world =
  requests_sent :: "request list"
  slept :: "nat list"
  printed :: "printout list"

text \<open>
  The remote service answers a request, given every request sent so far (the last one is
  the one being answered), with a response or with a network-level exception.
\<close>

type_synonym server = "request list \<Rightarrow> py_error + response"

type_synonym 'a outcome = "(py_error + 'a) \<times> client \<times> world"

text \<open>\<^verbatim>\<open>self.session.get(u, params=params, timeout=t)\<close>\<close>

definition session_get ::
  "http_session \<Rightarrow> server \<Rightarrow> string \<Rightarrow> (string \<times> json) list option \<Rightarrow> int \<Rightarrow> client \<Rightarrow> world
     \<Rightarrow> response outcome" where
  "session_get fresh srv u params t c w =
     (case session fresh c of
        (s, c') \<Rightarrow>
          (let req = \<lparr>req_url = u, req_params = params, req_timeout = t,
                      req_headers = headers s\<rparr>;
               w' = w\<lparr>requests_sent := requests_sent w @ [req]\<rparr>
           in (srv (requests_sent w'), c', w')))"

text \<open>
  \<^verbatim>\<open>
  @staticmethod
  def __get_response_data(response):
      response_dict = response.json()
      if response.status_code == 200:
          return response_dict["data"]
      else:
          print(response_dict)
  \<close>
\<close>

definition get_response_data :: "response \<Rightarrow> world \<Rightarrow> (py_error + json) \<times> world" where
  "get_response_data resp w =
     (case decoded resp of
        None \<Rightarrow> (Inl JSONDecodeError, w)
      | Some response_dict \<Rightarrow>
          (if status_code resp = 200 then (py_getitem response_dict ''data'', w)
           else (Inr JNull, w\<lparr>printed := printed w @ [PrintJson response_dict]\<rparr>)))"

text \<open>
  \<^verbatim>\<open>
  def __get_response(self, endpoint, retry=1, params=None):
      attempt = 0
      response = self.session.get("{}{}".format(self.url, endpoint),
                                  params=params, timeout=self.default_timeout)
      while response.status_code is not 200:
          # todo: same content code block
          time.sleep(5)
          response = self.session.get("{}{}".format(self.url, endpoint),
                                      params=params, timeout=self.default_timeout)
          attempt += 1
          if attempt > retry:
              break
      return self.__get_response_data(response)
  \<close>
  \<open>retry_loop\<close> is the \<^verbatim>\<open>while\<close> loop, entered with the current \<open>attempt\<close> and response.
\<close>

function retry_loop ::
  "http_session \<Rightarrow> server \<Rightarrow> string \<Rightarrow> int \<Rightarrow> (string \<times> json) list option \<Rightarrow> int \<Rightarrow> response
     \<Rightarrow> client \<Rightarrow> world \<Rightarrow> response outcome" where
  "retry_loop fresh srv endpoint retry params attempt resp c w =
     (if status_code resp \<noteq> 200 then
        (case session_get fresh srv (url c @ endpoint) params (default_timeout c) c
                (w\<lparr>slept := slept w @ [5]\<rparr>) of
           (r, c', w') \<Rightarrow>
             (case r of
                Inl e \<Rightarrow> (Inl e, c', w')
              | Inr resp' \<Rightarrow>
                  (if attempt + 1 > retry then (Inr resp', c', w')
                   else retry_loop fresh srv endpoint retry params (attempt + 1) resp' c' w')))
      else (Inr resp, c, w))"
  by pat_completeness auto
termination
  by (relation "measure (\<lambda>(fresh, srv, endpoint, retry, params, attempt, resp, c, w).
                  nat (retry - attempt))") auto

declare retry_loop.simps [simp del]

definition get_response ::
  "http_session \<Rightarrow> server \<Rightarrow> string \<Rightarrow> int \<Rightarrow> (string \<times> json) list option \<Rightarrow> client \<Rightarrow> world
     \<Rightarrow> json outcome" where
  "get_response fresh srv endpoint retry params c w =
     (case session_get fresh srv (url c @ endpoint) params (default_timeout c) c w of
        (r, c1, w1) \<Rightarrow>
          (case r of
             Inl e \<Rightarrow> (Inl e, c1, w1)
           | Inr resp \<Rightarrow>
               (case retry_loop fresh srv endpoint retry params 0 resp c1 w1 of
                  (r2, c2, w2) \<Rightarrow>
                    (case r2 of
                       Inl e \<Rightarrow> (Inl e, c2, w2)
                     | Inr resp' \<Rightarrow>
                         (case get_response_data resp' w2 of
                            (d, w3) \<Rightarrow> (d, c2, w3))))))"

text \<open>
  A session, once built, stays: \<open>keeps_session c c'\<close> says that a session that \<open>c\<close>
  holds is the session that \<open>c'\<close> holds.
\<close>

definition keeps_session :: "client \<Rightarrow> client \<Rightarrow> bool" where
  "keeps_session c c' =
     (case private_session c of None \<Rightarrow> True | Some s \<Rightarrow> private_session c' = Some s)"

text \<open>The attributes that the constructor fixes, as one tuple.\<close>

definition config ::
  "client \<Rightarrow> string \<times> string \<times> int \<times> string \<times> int \<times> int \<times> int" where
  "config c =
     (api_key c, version c, default_timeout c, url c, default_historical_data_length c,
      default_start_date c, default_end_date c)"

section \<open>Tables\<close>

text \<open>
  A \<^verbatim>\<open>pandas.DataFrame\<close>, as far as the client uses it: the columns in order, each with
  its cells, and the number of rows. A cell holds a value or is missing (\<open>NaN\<close>).
\<close>

datatype cell = Val json | NaN

record dataframe =
  df_columns :: "(string \<times> cell list) list"
  df_rows :: nat

text \<open>
  \<^verbatim>\<open>pd.DataFrame.from_dict(records)\<close> on a list of dicts: one row per dict in order, one
  column per key in order of first appearance, a missing cell where a dict lacks the key.
  Each column then gets a type. A column that holds numbers, and besides them only
  \<^verbatim>\<open>None\<close> and missing cells, becomes a column of floats, where \<^verbatim>\<open>None\<close> is stored as
  missing; the number itself is carried as it is (a float holds the same value). Every
  other column that the client can receive from JSON (strings, booleans, lists, objects,
  or nothing but \<^verbatim>\<open>None\<close>) keeps its values as they are.
\<close>

definition add_keys :: "(string \<times> json) list \<Rightarrow> string list \<Rightarrow> string list" where
  "add_keys row cols = fold (\<lambda>k cs. if k \<in> set cs then cs else cs @ [k]) (map fst row) cols"

definition record_cell :: "string \<Rightarrow> (string \<times> json) list \<Rightarrow> cell" where
  "record_cell k row = (case map_of row k of Some v \<Rightarrow> Val v | None \<Rightarrow> NaN)"

fun is_number :: "cell \<Rightarrow> bool" where
  "is_number (Val (JNum n)) = True"
| "is_number _ = False"

fun is_missing :: "cell \<Rightarrow> bool" where
  "is_missing NaN = True"
| "is_missing (Val JNull) = True"
| "is_missing _ = False"

definition coerce_column :: "cell list \<Rightarrow> cell list" where
  "coerce_column cells =
     (if list_all (\<lambda>c. is_number c \<or> is_missing c) cells \<and> list_ex is_number cells
      then map (\<lambda>c. if is_missing c then NaN else c) cells
      else cells)"

definition from_dict :: "(string \<times> json) list list \<Rightarrow> dataframe" where
  "from_dict records =
     \<lparr>df_columns = map (\<lambda>k. (k, coerce_column (map (record_cell k) records)))
                      (fold add_keys records []),
      df_rows = length records\<rparr>"

text \<open>\<^verbatim>\<open>df[k]\<close> reads a column and raises KeyError when there is none of that name.\<close>

definition df_getitem :: "dataframe \<Rightarrow> string \<Rightarrow> py_error + cell list" where
  "df_getitem df k = (case map_of (df_columns df) k of Some col \<Rightarrow> Inr col | None \<Rightarrow> Inl KeyError)"

text \<open>\<^verbatim>\<open>df[k] = col\<close>\<close>

definition df_setitem :: "dataframe \<Rightarrow> string \<Rightarrow> cell list \<Rightarrow> dataframe" where
  "df_setitem df k col = df\<lparr>df_columns := AList.update k col (df_columns df)\<rparr>"

text \<open>The cell of row \<open>i\<close> in column \<open>k\<close>, when the table has both.\<close>

definition df_cell :: "dataframe \<Rightarrow> nat \<Rightarrow> string \<Rightarrow> cell option" where
  "df_cell df i k =
     (case map_of (df_columns df) k of
        None \<Rightarrow> None
      | Some col \<Rightarrow> (if i < length col then Some (col ! i) else None))"

section \<open>Parsers\<close>

text \<open>
  The body of the loop of both parsers, for the key \<open>key\<close> (\<^verbatim>\<open>"timestamp"\<close> or
  \<^verbatim>\<open>"time_close"\<close>):
  \<^verbatim>\<open>
      result_dict = dict()
      result_dict[key] = quotes[key]
      for key, value in quotes["quote"]["USD"].items():
          result_dict[key] = value
  \<close>
\<close>

definition flatten_entry :: "string \<Rightarrow> json \<Rightarrow> py_error + (string \<times> json) list" where
  "flatten_entry key quotes =
     bnd (py_getitem quotes key) (\<lambda>t.
     bnd (py_getitem quotes ''quote'') (\<lambda>q.
     bnd (py_getitem q ''USD'') (\<lambda>usd.
     bnd (py_items usd) (\<lambda>items.
     Inr (fold (\<lambda>kv d. dict_set (fst kv) (snd kv) d) items (dict_set key t []))))))"

text \<open>
  \<^verbatim>\<open>
  @staticmethod
  def parse_ohlcv_data(data_dict):
      result = []
      quotes_list = data_dict["quotes"]
      for quotes in quotes_list:
          ...
          result.append(result_dict)
      result_df = pd.DataFrame.from_dict(result)
      return result_df
  \<close>
\<close>

definition parse_ohlcv_data :: "json \<Rightarrow> py_error + dataframe" where
  "parse_ohlcv_data data_dict =
     bnd (py_getitem data_dict ''quotes'') (\<lambda>quotes_list.
     bnd (py_iter quotes_list) (\<lambda>qs.
     bnd (for_each (flatten_entry ''time_close'') qs) (\<lambda>result.
     Inr (from_dict result))))"

text \<open>
  What \<^verbatim>\<open>Series.apply\<close> hands to \<open>convert_datetime_precision\<close> for a cell: a string cell
  is a Python string, every other cell (a number, a missing cell) has no
  \<^verbatim>\<open>strftime\<close>.
\<close>

fun cell_timestamp :: "cell \<Rightarrow> timestamp" where
  "cell_timestamp (Val (JStr s)) = TsStr s"
| "cell_timestamp _ = TsOther"

text \<open>
  \<^verbatim>\<open>
  @staticmethod
  def parse_quote_data(data_dict):
      result = []
      symbol = data_dict["symbol"]
      quotes_list = data_dict["quotes"]
      for quotes in quotes_list:
          ...
          result.append(result_dict)
      result_df = pd.DataFrame.from_dict(result)
      result_df["timestamp"] = result_df["timestamp"].apply(
          CoinMarketCap.convert_datetime_precision, time_interval="h")
      return {"symbol": symbol, "result_df": result_df}
  \<close>
\<close>

record quote_result =
  symbol :: json
  result_df :: dataframe

definition parse_quote_data ::
  "(string \<Rightarrow> py_error + datetime) \<Rightarrow> json \<Rightarrow> py_error + quote_result" where
  "parse_quote_data dateutil_parse data_dict =
     bnd (py_getitem data_dict ''symbol'') (\<lambda>sym.
     bnd (py_getitem data_dict ''quotes'') (\<lambda>quotes_list.
     bnd (py_iter quotes_list) (\<lambda>qs.
     bnd (for_each (flatten_entry ''timestamp'') qs) (\<lambda>result.
     bnd (df_getitem (from_dict result) ''timestamp'') (\<lambda>col.
     bnd (for_each (\<lambda>c. bnd (convert_datetime_precision dateutil_parse (cell_timestamp c) ''h'')
                             (\<lambda>s. Inr (Val (JStr s)))) col) (\<lambda>col'.
     Inr \<lparr>symbol = sym,
          result_df = df_setitem (from_dict result) ''timestamp'' col'\<rparr>))))))"

section \<open>Endpoint methods\<close>

text \<open>
  \<^verbatim>\<open>
  def get_ticker_list(self):
      data = self.__get_response("/cryptocurrency/map")
      return data

  def get_meta_data_from_id(self, ticker_id):
      data = self.__get_response("/cryptocurrency/info", params={"id": ticker_id})
      return data
  \<close>
\<close>

definition get_ticker_list :: "http_session \<Rightarrow> server \<Rightarrow> client \<Rightarrow> world \<Rightarrow> json outcome" where
  "get_ticker_list fresh srv c w = get_response fresh srv ''/cryptocurrency/map'' 1 None c w"

definition get_meta_data_from_id ::
  "http_session \<Rightarrow> server \<Rightarrow> json \<Rightarrow> client \<Rightarrow> world \<Rightarrow> json outcome" where
  "get_meta_data_from_id fresh srv ticker_id c w =
     get_response fresh srv ''/cryptocurrency/info'' 1 (Some [(''id'', ticker_id)]) c w"

text \<open>
  \<^verbatim>\<open>
  def get_market_quotes_from_id(self, ticker_id, time_start=None, time_end=None,
                                convert_currency="USD"):
      _time_start = self.default_start_date if time_start is None else time_start
      _time_end = self.default_end_date if time_end is None else time_end
      if _time_start > _time_end:
          print("Time period out of range, check time input and default time point")
      data = self.__get_response("/cryptocurrency/quotes/historical",
                                 params={"id": ticker_id,
                                         "time_start": _time_start,
                                         "time_end": _time_end,
                                         "interval": "6h",
                                         "convert": convert_currency})
      return self.parse_quote_data(data)
  \<close>
\<close>

definition range_warning :: printout where
  "range_warning =
     PrintStr ''Time period out of range, check time input and default time point''"

definition quotes_params ::
  "json \<Rightarrow> int \<Rightarrow> int \<Rightarrow> string \<Rightarrow> (string \<times> json) list" where
  "quotes_params ticker_id t_start t_end convert_currency =
     [(''id'', ticker_id), (''time_start'', JNum t_start), (''time_end'', JNum t_end),
      (''interval'', JStr ''6h''), (''convert'', JStr convert_currency)]"

definition get_market_quotes_from_id ::
  "http_session \<Rightarrow> server \<Rightarrow> (string \<Rightarrow> py_error + datetime) \<Rightarrow> json \<Rightarrow> int option \<Rightarrow> int option \<Rightarrow> string
     \<Rightarrow> client \<Rightarrow> world \<Rightarrow> quote_result outcome" where
  "get_market_quotes_from_id fresh srv dateutil_parse ticker_id time_start time_end
       convert_currency c w =
     (let t_start = (case time_start of None \<Rightarrow> default_start_date c | Some t \<Rightarrow> t);
          t_end = (case time_end of None \<Rightarrow> default_end_date c | Some t \<Rightarrow> t);
          w0 = (if t_start > t_end then w\<lparr>printed := printed w @ [range_warning]\<rparr> else w)
      in case get_response fresh srv ''/cryptocurrency/quotes/historical'' 1
                (Some (quotes_params ticker_id t_start t_end convert_currency)) c w0 of
           (r, c', w') \<Rightarrow>
             (case r of
                Inl e \<Rightarrow> (Inl e, c', w')
              | Inr data \<Rightarrow> (parse_quote_data dateutil_parse data, c', w')))"

text \<open>
  \<^verbatim>\<open>
  def get_ohlcv_from_id(self, ticker_id, convert_currency="USD"):
      data = self.__get_response("/cryptocurrency/ohlcv/historical",
                                 params={"id": ticker_id,
                                         "time_start": self.default_start_date,
                                         "time_end": self.default_end_date,
                                         "interval": "1d",
                                         "convert": convert_currency})
      return self.parse_ohlcv_data(data)
  \<close>
\<close>

definition get_ohlcv_from_id ::
  "http_session \<Rightarrow> server \<Rightarrow> json \<Rightarrow> string \<Rightarrow> client \<Rightarrow> world \<Rightarrow> dataframe outcome" where
  "get_ohlcv_from_id fresh srv ticker_id convert_currency c w =
     (case get_response fresh srv ''/cryptocurrency/ohlcv/historical'' 1
             (Some [(''id'', ticker_id), (''time_start'', JNum (default_start_date c)),
                    (''time_end'', JNum (default_end_date c)), (''interval'', JStr ''1d''),
                    (''convert'', JStr convert_currency)]) c w of
        (r, c', w') \<Rightarrow>
          (case r of
             Inl e \<Rightarrow> (Inl e, c', w')
           | Inr data \<Rightarrow> (parse_ohlcv_data data, c', w')))"


text \<open>
  The public operations that receive \<^verbatim>\<open>self\<close>, and the client each leaves behind.
\<close>

datatype operation =
  Session
| GetTickerList
| GetMetaDataFromId json
| GetMarketQuotesFromId json "int option" "int option" string
| GetOhlcvFromId json string

definition client_after ::
  "http_session \<Rightarrow> server \<Rightarrow> (string \<Rightarrow> py_error + datetime) \<Rightarrow> operation \<Rightarrow> client \<Rightarrow> world \<Rightarrow> client" where
  "client_after fresh srv dateutil_parse op c w =
     (case op of
        Session \<Rightarrow> snd (session fresh c)
      | GetTickerList \<Rightarrow> fst (snd (get_ticker_list fresh srv c w))
      | GetMetaDataFromId ticker_id \<Rightarrow> fst (snd (get_meta_data_from_id fresh srv ticker_id c w))
      | GetMarketQuotesFromId ticker_id time_start time_end convert_currency \<Rightarrow>
          fst (snd (get_market_quotes_from_id fresh srv dateutil_parse ticker_id time_start time_end
                      convert_currency c w))
      | GetOhlcvFromId ticker_id convert_currency \<Rightarrow>
          fst (snd (get_ohlcv_from_id fresh srv ticker_id convert_currency c w)))"

section \<open>Example inputs\<close>


definition utc :: "int \<Rightarrow> int" where
  "utc wall = 0"

text \<open>A service that answers every request with status 500 and an empty JSON object.\<close>

definition always_500 :: server where
  "always_500 sent = Inr \<lparr>status_code = 500, decoded = Some (JObj [])\<rparr>"

text \<open>A service that answers every request with status 200 and a given payload.\<close>

definition always_ok :: "json \<Rightarrow> server" where
  "always_ok payload sent = Inr \<lparr>status_code = 200, decoded = Some (JObj [(''data'', payload)])\<rparr>"

text \<open>A new session as \<^verbatim>\<open>requests\<close> 2.31 makes it.\<close>

definition session0 :: http_session where
  "session0 =
     \<lparr>headers = [(''User-Agent'', ''python-requests/2.31.0''),
                 (''Accept-Encoding'', ''gzip, deflate''), (''Accept'', ''*/*''),
                 (''Connection'', ''keep-alive'')]\<rparr>"

definition client0 :: client where
  "client0 = init utc 18706 18706 ''key'' True ''standard'' 10"

definition world0 :: world where
  "world0 = \<lparr>requests_sent = [], slept = [], printed = []\<rparr>"

text \<open>A parser that knows one timestamp.\<close>

definition parse_example :: "string \<Rightarrow> py_error + datetime" where
  "parse_example s =
     (if s = ''2021-01-01T00:00:00Z''
      then Inr \<lparr>year = 2021, month = 1, day = 1, hour = 0, minute = 0, second = 0\<rparr>
      else Inl ValueError)"

section \<open>Properties\<close>
subsection \<open>Chunking\<close>

lemma py_slice_pos:
  assumes "0 \<le> i" "0 < n"
  shows "py_slice xs i (i + n) = take (nat n) (drop (nat i) xs)"
proof (cases "nat i \<le> length xs")
  case True
  show ?thesis
  proof (cases "nat (i + n) \<le> length xs")
    case True
    with assms show ?thesis
      by (simp add: py_slice_def slice_bound_def Let_def min_def nat_add_distrib)
  next
    case False
    with assms \<open>nat i \<le> length xs\<close> show ?thesis
      by (simp add: py_slice_def slice_bound_def Let_def min_def nat_add_distrib)
  qed
next
  case False
  with assms show ?thesis
    by (simp add: py_slice_def slice_bound_def Let_def min_def)
qed

lemma py_range_bounds:
  "0 < n \<Longrightarrow> j \<in> set (py_range i stop n) \<Longrightarrow> i \<le> j \<and> j < stop"
proof (induction i stop n rule: py_range.induct)
  case (1 i stop step)
  show ?case
  proof (cases "i < stop")
    case True
    with "1.prems" have "j = i \<or> j \<in> set (py_range (i + step) stop step)"
      by (simp add: py_range.simps [of i stop step])
    then show ?thesis
    proof
      assume "j = i"
      with True show ?thesis by simp
    next
      assume "j \<in> set (py_range (i + step) stop step)"
      with "1.IH"(1) "1.prems"(1) True have "i + step \<le> j \<and> j < stop" by simp
      with "1.prems"(1) show ?thesis by simp
    qed
  next
    case False
    with "1.prems" show ?thesis
      by (simp add: py_range.simps [of i stop step])
  qed
qed

lemma py_range_butlast:
  "0 < n \<Longrightarrow> j \<in> set (butlast (py_range i stop n)) \<Longrightarrow> j + n < stop"
proof (induction i stop n rule: py_range.induct)
  case (1 i stop step)
  show ?case
  proof (cases "i < stop")
    case True
    note lt = True
    have unfold: "py_range i stop step = i # py_range (i + step) stop step"
      using lt "1.prems"(1) by (simp add: py_range.simps [of i stop step])
    show ?thesis
    proof (cases "py_range (i + step) stop step = []")
      case True
      with unfold "1.prems"(2) show ?thesis by simp
    next
      case False
      with unfold "1.prems"(2)
      have "j = i \<or> j \<in> set (butlast (py_range (i + step) stop step))" by simp
      then show ?thesis
      proof
        assume "j = i"
        from False "1.prems"(1) have "i + step < stop"
          by (simp add: py_range.simps [of "i + step" stop step] split: if_splits)
        with \<open>j = i\<close> show ?thesis by simp
      next
        assume "j \<in> set (butlast (py_range (i + step) stop step))"
        with "1.IH"(1) "1.prems"(1) lt show ?thesis by simp
      qed
    qed
  next
    case False
    with "1.prems" show ?thesis
      by (simp add: py_range.simps [of i stop step])
  qed
qed

lemma concat_chunks:
  "0 < n \<Longrightarrow> 0 \<le> i \<Longrightarrow>
   concat (map (\<lambda>j. take (nat n) (drop (nat j) xs)) (py_range i (int (length xs)) n))
     = drop (nat i) xs"
proof (induction i "int (length xs)" n rule: py_range.induct)
  case (1 i step)
  show ?case
  proof (cases "i < int (length xs)")
    case True
    have unfold: "py_range i (int (length xs)) step
                    = i # py_range (i + step) (int (length xs)) step"
      using True "1.prems"(1) by (simp add: py_range.simps [of i _ step])
    have ih: "concat (map (\<lambda>j. take (nat step) (drop (nat j) xs))
                (py_range (i + step) (int (length xs)) step)) = drop (nat (i + step)) xs"
      using "1.hyps"(1) "1.prems" True by simp
    have e: "nat (i + step) = nat step + nat i"
      using "1.prems" by simp
    have "take (nat step) (drop (nat i) xs) @ drop (nat step) (drop (nat i) xs)
            = drop (nat i) xs"
      by (rule append_take_drop_id)
    then have "take (nat step) (drop (nat i) xs) @ drop (nat (i + step)) xs
                 = drop (nat i) xs"
      by (simp only: drop_drop e)
    with unfold ih show ?thesis by simp
  next
    case False
    with "1.prems" show ?thesis
      by (simp add: py_range.simps [of i _ step])
  qed
qed

lemma split_list_pos:
  assumes "0 < n"
  shows "split_list l n
           = Inr (map (\<lambda>j. take (nat n) (drop (nat j) l)) (py_range 0 (int (length l)) n))"
proof -
  have "map (\<lambda>i. py_slice l i (i + n)) (py_range 0 (int (length l)) n)
          = map (\<lambda>j. take (nat n) (drop (nat j) l)) (py_range 0 (int (length l)) n)"
  proof (rule map_cong [OF refl])
    fix j assume "j \<in> set (py_range 0 (int (length l)) n)"
    with assms have "0 \<le> j" using py_range_bounds [of n j 0 "int (length l)"] by simp
    from this assms show "py_slice l j (j + n) = take (nat n) (drop (nat j) l)"
      by (rule py_slice_pos)
  qed
  with assms show ?thesis by (simp add: split_list_def)
qed

lemma py_range_empty_iff:
  "0 < n \<Longrightarrow> py_range i stop n = [] \<longleftrightarrow> stop \<le> i"
  by (simp add: py_range.simps [of i stop n])

text \<open>
  C10. For a positive chunk length \<open>n\<close>, \<open>split_list l n\<close> returns consecutive slices of
  \<open>l\<close> whose concatenation is \<open>l\<close>; every chunk but the last has exactly \<open>n\<close> elements,
  the last has between 1 and \<open>n\<close>, and the result is empty exactly when \<open>l\<close> is.
\<close>

theorem split_list_chunks:
  assumes "0 < n"
  shows "\<exists>chunks. split_list l n = Inr chunks
           \<and> concat chunks = l
           \<and> (\<forall>c \<in> set (butlast chunks). length c = nat n)
           \<and> (chunks \<noteq> [] \<longrightarrow> 1 \<le> length (last chunks) \<and> length (last chunks) \<le> nat n)
           \<and> (chunks = [] \<longleftrightarrow> l = [])"
proof -
  define starts where "starts = py_range 0 (int (length l)) n"
  define f where "f = (\<lambda>j. take (nat n) (drop (nat j) l))"
  define chunks where "chunks = map f starts"
  have res: "split_list l n = Inr chunks"
    using assms by (simp add: split_list_pos chunks_def f_def starts_def)
  have cat: "concat chunks = l"
    using concat_chunks [of n 0 l] assms by (simp add: chunks_def f_def starts_def)
  have full: "length c = nat n" if "c \<in> set (butlast chunks)" for c
  proof -
    from that obtain j where j: "j \<in> set (butlast starts)" and c: "c = f j"
      by (auto simp: chunks_def map_butlast [symmetric])
    from j have "j \<in> set starts" by (rule in_set_butlastD)
    with assms have "0 \<le> j"
      using py_range_bounds [of n j 0 "int (length l)"] by (simp add: starts_def)
    moreover from j assms have "j + n < int (length l)"
      using py_range_butlast [of n j 0 "int (length l)"] by (simp add: starts_def)
    ultimately show ?thesis using assms by (simp add: c f_def)
  qed
  have lst: "1 \<le> length (last chunks) \<and> length (last chunks) \<le> nat n" if "chunks \<noteq> []"
  proof -
    from that have ne: "starts \<noteq> []" by (simp add: chunks_def)
    then have "last starts \<in> set starts" by simp
    with assms have "0 \<le> last starts \<and> last starts < int (length l)"
      using py_range_bounds [of n "last starts" 0 "int (length l)"] by (simp add: starts_def)
    then have "nat (last starts) < length l" by linarith
    moreover from assms have "0 < nat n" by simp
    moreover have "last chunks = f (last starts)"
      using ne by (simp add: chunks_def last_map)
    ultimately show ?thesis by (simp add: f_def) linarith
  qed
  have emp: "chunks = [] \<longleftrightarrow> l = []"
    using assms py_range_empty_iff [of n 0 "int (length l)"] by (simp add: chunks_def starts_def)
  from res cat full lst emp show ?thesis by blast
qed

theorem split_list_chunks_witness:
  "(0::int) < 2 \<and> split_list [1, 2, 3, 4, 5 :: nat] 2 = Inr [[1, 2], [3, 4], [5]]"
proof -
  have pos: "(0::int) < 2" by simp
  from split_list_chunks [OF pos, of "[1, 2, 3, 4, 5 :: nat]"]
  obtain chunks where "split_list [1, 2, 3, 4, 5 :: nat] 2 = Inr chunks" by blast
  moreover have "split_list [1, 2, 3, 4, 5 :: nat] 2 = Inr [[1, 2], [3, 4], [5]]"
    by (simp add: split_list_def py_range.simps py_slice_def slice_bound_def)
  ultimately show ?thesis by simp
qed

subsection \<open>Construction\<close>

lemma init_fields:
  "api_key (init tz today1 today2 key is_sandbox api_type timeout) = key"
  "version (init tz today1 today2 key is_sandbox api_type timeout) = ''v1''"
  "default_timeout (init tz today1 today2 key is_sandbox api_type timeout) = timeout"
  "private_session (init tz today1 today2 key is_sandbox api_type timeout) = None"
  "default_historical_data_length (init tz today1 today2 key is_sandbox api_type timeout)
     = (case map_of API_TYPE_MAP api_type of Some n \<Rightarrow> n - 1 | None \<Rightarrow> 29)"
  "default_end_date (init tz today1 today2 key is_sandbox api_type timeout)
     = convert_to_day_begin tz today1"
  "default_start_date (init tz today1 today2 key is_sandbox api_type timeout)
     = convert_to_day_begin tz
         (today2 - (case map_of API_TYPE_MAP api_type of Some n \<Rightarrow> n - 1 | None \<Rightarrow> 29))"
  by (simp_all add: init_def Let_def)


text \<open>
  C5. For a tier name that \<open>API_TYPE_MAP\<close> knows (\<open>standard\<close> with 30 days, \<open>professional\<close>
  with 365), the lookback window stored at construction is the tier's maximum minus one
  (29 and 364); for any other tier name (such as \<open>enterprise\<close>) it is the default of 29.
\<close>

theorem lookback_window:
  "(\<forall>n. map_of API_TYPE_MAP api_type = Some n \<longrightarrow>
        default_historical_data_length (init tz today1 today2 key is_sandbox api_type timeout)
          = n - 1)
   \<and> (map_of API_TYPE_MAP api_type = None \<longrightarrow>
        default_historical_data_length (init tz today1 today2 key is_sandbox api_type timeout)
          = 29)
   \<and> dom (map_of API_TYPE_MAP) = {''standard'', ''professional''}
   \<and> map_of API_TYPE_MAP ''standard'' = Some 30
   \<and> map_of API_TYPE_MAP ''professional'' = Some 365
   \<and> default_historical_data_length (init tz today1 today2 key is_sandbox ''standard'' timeout)
       = 29
   \<and> default_historical_data_length
       (init tz today1 today2 key is_sandbox ''professional'' timeout) = 364
   \<and> default_historical_data_length
       (init tz today1 today2 key is_sandbox ''enterprise'' timeout) = 29"
proof -
  have tiers: "dom (map_of API_TYPE_MAP) = {''standard'', ''professional''}"
    by (auto simp: API_TYPE_MAP_def split: if_splits)
  have known: "map_of API_TYPE_MAP ''standard'' = Some 30"
      "map_of API_TYPE_MAP ''professional'' = Some 365"
      "map_of API_TYPE_MAP ''enterprise'' = None"
    by (simp_all add: API_TYPE_MAP_def)
  show ?thesis
    using tiers known by (simp add: init_fields)
qed

theorem lookback_window_witness:
  "map_of API_TYPE_MAP ''professional'' = Some 365
   \<and> default_historical_data_length (init utc 18706 18706 ''key'' True ''professional'' 10) = 364
   \<and> map_of API_TYPE_MAP ''enterprise'' = None
   \<and> default_historical_data_length (init utc 18706 18706 ''key'' True ''enterprise'' 10) = 29"
proof -
  have p: "map_of API_TYPE_MAP ''professional'' = Some 365"
    and e: "map_of API_TYPE_MAP ''enterprise'' = None"
    by (simp_all add: API_TYPE_MAP_def)
  from lookback_window [of "''professional''" utc 18706 18706 "''key''" True 10] p
  have "default_historical_data_length (init utc 18706 18706 ''key'' True ''professional'' 10)
          = 365 - 1"
    by blast
  moreover from lookback_window [of "''enterprise''" utc 18706 18706 "''key''" True 10] e
  have "default_historical_data_length (init utc 18706 18706 ''key'' True ''enterprise'' 10) = 29"
    by blast
  ultimately show ?thesis using p e by simp
qed




subsection \<open>Timestamp precision\<close>

lemma is_digit_digit: "is_digit (digit n)"
proof -
  have "n mod 10 < length ''0123456789''" by simp
  then have "''0123456789'' ! (n mod 10) \<in> set ''0123456789''" by (rule nth_mem)
  then show ?thesis by (simp only: is_digit_def digit_def)
qed

text \<open>A year from 1000 to 9999 has four digits.\<close>

lemma decimal_four:
  assumes "1000 \<le> n" and "n \<le> 9999"
  shows "decimal n = [digit (n div 1000), digit (n div 100), digit (n div 10), digit n]"
proof -
  have q: "\<not> n < 10" "\<not> n div 10 < 10" "\<not> n div 100 < 10" "n div 1000 < 10"
    using assms by (simp_all add: div_less_iff_less_mult)
  have "n div (10 * 10) = n div 10 div 10" "n div (100 * 10) = n div 100 div 10"
    by (rule div_mult2_eq)+
  then have e: "n div 10 div 10 = n div 100" "n div 100 div 10 = n div 1000"
    by simp_all
  have a: "decimal n = decimal (n div 10) @ [digit n]"
    using q(1) by (simp only: decimal.simps [of n] if_False)
  have b: "decimal (n div 10) = decimal (n div 100) @ [digit (n div 10)]"
    using q(2) by (simp only: decimal.simps [of "n div 10"] if_False e)
  have c: "decimal (n div 100) = decimal (n div 1000) @ [digit (n div 100)]"
    using q(3) by (simp only: decimal.simps [of "n div 100"] if_False e)
  have d: "decimal (n div 1000) = [digit (n div 1000)]"
    using q(4) by (simp only: decimal.simps [of "n div 1000"] if_True)
  show ?thesis by (simp only: a b c d append.simps)
qed

lemma decimal_not_empty: "0 < length (decimal n)"
  by (subst decimal.simps) simp

lemma strftime_day:
  "strftime dt ''%Y-%m-%d''
     = decimal (year dt) @ ''-'' @ pad2 (month dt) @ ''-'' @ pad2 (day dt)"
  by (simp add: directive_def)

lemma strftime_hour:
  "strftime dt ''%Y-%m-%d %H'' = strftime dt ''%Y-%m-%d'' @ '' '' @ pad2 (hour dt)"
  by (simp add: directive_def)

lemma strftime_minute:
  "strftime dt ''%Y-%m-%d %H:%M'' = strftime dt ''%Y-%m-%d %H'' @ '':'' @ pad2 (minute dt)"
  by (simp add: directive_def)

lemma strftime_second:
  "strftime dt ''%Y-%m-%d %H:%M:%S''
     = strftime dt ''%Y-%m-%d %H:%M'' @ '':'' @ pad2 (second dt)"
  by (simp add: directive_def)

lemma shape_day:
  "1000 \<le> y \<Longrightarrow> y \<le> 9999 \<Longrightarrow>
     has_shape ''YYYY-MM-DD'' (decimal y @ ''-'' @ pad2 m @ ''-'' @ pad2 d)"
  by (simp add: has_shape_def decimal_four pad2_def is_digit_digit)

lemma shape_hour:
  "1000 \<le> y \<Longrightarrow> y \<le> 9999 \<Longrightarrow>
     has_shape ''YYYY-MM-DD HH'' (decimal y @ ''-'' @ pad2 m @ ''-'' @ pad2 d @ '' '' @ pad2 h)"
  by (simp add: has_shape_def decimal_four pad2_def is_digit_digit)

lemma shape_minute:
  "1000 \<le> y \<Longrightarrow> y \<le> 9999 \<Longrightarrow>
     has_shape ''YYYY-MM-DD HH:MM''
       (decimal y @ ''-'' @ pad2 m @ ''-'' @ pad2 d @ '' '' @ pad2 h @ '':'' @ pad2 mi)"
  by (simp add: has_shape_def decimal_four pad2_def is_digit_digit)

lemma shape_second:
  "1000 \<le> y \<Longrightarrow> y \<le> 9999 \<Longrightarrow>
     has_shape ''YYYY-MM-DD HH:MM:SS''
       (decimal y @ ''-'' @ pad2 m @ ''-'' @ pad2 d @ '' '' @ pad2 h @ '':'' @ pad2 mi
          @ '':'' @ pad2 s)"
  by (simp add: has_shape_def decimal_four pad2_def is_digit_digit)

lemma convert_known_codes:
  assumes "as_datetime dateutil_parse ts = Inr dt"
  shows "convert_datetime_precision dateutil_parse ts ''d''
           = Inr (decimal (year dt) @ ''-'' @ pad2 (month dt) @ ''-'' @ pad2 (day dt))"
    and "convert_datetime_precision dateutil_parse ts ''h''
           = Inr (decimal (year dt) @ ''-'' @ pad2 (month dt) @ ''-'' @ pad2 (day dt)
                    @ '' '' @ pad2 (hour dt))"
    and "convert_datetime_precision dateutil_parse ts ''M''
           = Inr (decimal (year dt) @ ''-'' @ pad2 (month dt) @ ''-'' @ pad2 (day dt)
                    @ '' '' @ pad2 (hour dt) @ '':'' @ pad2 (minute dt))"
    and "convert_datetime_precision dateutil_parse ts ''s''
           = Inr (decimal (year dt) @ ''-'' @ pad2 (month dt) @ ''-'' @ pad2 (day dt)
                    @ '' '' @ pad2 (hour dt) @ '':'' @ pad2 (minute dt)
                    @ '':'' @ pad2 (second dt))"
  using assms
  by (simp_all add: convert_datetime_precision_def bnd_def Let_def
        strftime_second strftime_minute strftime_hour strftime_day
      del: strftime.simps)

lemma convert_unknown_code:
  assumes "as_datetime dateutil_parse ts = Inr dt"
    and "time_interval \<notin> {''d'', ''h'', ''M'', ''s''}"
  shows "convert_datetime_precision dateutil_parse ts time_interval = Inl ValueError"
  using assms by (simp add: convert_datetime_precision_def bnd_def Let_def del: strftime.simps)

lemma convert_unknown_code_raises:
  assumes "time_interval \<notin> {''d'', ''h'', ''M'', ''s''}"
  shows "\<exists>e. convert_datetime_precision dateutil_parse ts time_interval = Inl e"
proof (cases "as_datetime dateutil_parse ts")
  case (Inl e)
  then show ?thesis by (simp add: convert_datetime_precision_def bnd_def)
next
  case (Inr dt)
  with assms show ?thesis by (simp add: convert_unknown_code)
qed

lemma convert_no_datetime:
  "convert_datetime_precision dateutil_parse TsOther time_interval = Inl AttributeError"
  "dateutil_parse s = Inl e \<Longrightarrow>
     convert_datetime_precision dateutil_parse (TsStr s) time_interval = Inl e"
  by (simp_all add: convert_datetime_precision_def as_datetime_def bnd_def)

text \<open>
  C7, as the code has it. Let the timestamp be a datetime-like object, or a string that
  the parser reads as one; \<open>dt\<close> is that object. The codes \<open>d\<close>, \<open>h\<close>, \<open>M\<close>, \<open>s\<close> give the year
  in decimal, then month and day, then the hour, the minute and the second, each of these
  in two digits, with the separators of \<open>YYYY-MM-DD HH:MM:SS\<close>. For a year from 1000 to
  9999 the four results have the shapes \<open>YYYY-MM-DD\<close>, \<open>YYYY-MM-DD HH\<close>,
  \<open>YYYY-MM-DD HH:MM\<close> and \<open>YYYY-MM-DD HH:MM:SS\<close>. For every year each result is three
  characters longer than the one before. Every other code raises ValueError, and raises
  for every timestamp whatsoever. A value with no \<^verbatim>\<open>strftime\<close> raises AttributeError and
  a string that the parser refuses raises the parser's exception, whatever the code.
\<close>

theorem convert_datetime_precision_codes:
  assumes "ts = TsDatetime dt \<or> (ts = TsStr str \<and> dateutil_parse str = Inr dt)"
  shows "convert_datetime_precision dateutil_parse ts ''d''
           = Inr (decimal (year dt) @ ''-'' @ pad2 (month dt) @ ''-'' @ pad2 (day dt))
       \<and> convert_datetime_precision dateutil_parse ts ''h''
           = Inr (decimal (year dt) @ ''-'' @ pad2 (month dt) @ ''-'' @ pad2 (day dt)
                    @ '' '' @ pad2 (hour dt))
       \<and> convert_datetime_precision dateutil_parse ts ''M''
           = Inr (decimal (year dt) @ ''-'' @ pad2 (month dt) @ ''-'' @ pad2 (day dt)
                    @ '' '' @ pad2 (hour dt) @ '':'' @ pad2 (minute dt))
       \<and> convert_datetime_precision dateutil_parse ts ''s''
           = Inr (decimal (year dt) @ ''-'' @ pad2 (month dt) @ ''-'' @ pad2 (day dt)
                    @ '' '' @ pad2 (hour dt) @ '':'' @ pad2 (minute dt)
                    @ '':'' @ pad2 (second dt))
       \<and> (1000 \<le> year dt \<and> year dt \<le> 9999 \<longrightarrow>
            (\<exists>d h m s.
               convert_datetime_precision dateutil_parse ts ''d'' = Inr d
             \<and> convert_datetime_precision dateutil_parse ts ''h'' = Inr h
             \<and> convert_datetime_precision dateutil_parse ts ''M'' = Inr m
             \<and> convert_datetime_precision dateutil_parse ts ''s'' = Inr s
             \<and> has_shape ''YYYY-MM-DD'' d \<and> has_shape ''YYYY-MM-DD HH'' h
             \<and> has_shape ''YYYY-MM-DD HH:MM'' m \<and> has_shape ''YYYY-MM-DD HH:MM:SS'' s))
       \<and> (\<exists>d h m s.
             convert_datetime_precision dateutil_parse ts ''d'' = Inr d
           \<and> convert_datetime_precision dateutil_parse ts ''h'' = Inr h
           \<and> convert_datetime_precision dateutil_parse ts ''M'' = Inr m
           \<and> convert_datetime_precision dateutil_parse ts ''s'' = Inr s
           \<and> 0 < length d \<and> length h = length d + 3 \<and> length m = length h + 3
           \<and> length s = length m + 3)
       \<and> (time_interval \<notin> {''d'', ''h'', ''M'', ''s''} \<longrightarrow>
            convert_datetime_precision dateutil_parse ts time_interval = Inl ValueError
            \<and> (\<forall>ts'. \<exists>e. convert_datetime_precision dateutil_parse ts' time_interval = Inl e))
       \<and> convert_datetime_precision dateutil_parse TsOther time_interval = Inl AttributeError
       \<and> (\<forall>s e. dateutil_parse s = Inl e \<longrightarrow>
            convert_datetime_precision dateutil_parse (TsStr s) time_interval = Inl e)"
proof -
  from assms have a: "as_datetime dateutil_parse ts = Inr dt"
    by (auto simp: as_datetime_def)
  note k = convert_known_codes [OF a]
  have shapes: "\<exists>d h m s.
               convert_datetime_precision dateutil_parse ts ''d'' = Inr d
             \<and> convert_datetime_precision dateutil_parse ts ''h'' = Inr h
             \<and> convert_datetime_precision dateutil_parse ts ''M'' = Inr m
             \<and> convert_datetime_precision dateutil_parse ts ''s'' = Inr s
             \<and> has_shape ''YYYY-MM-DD'' d \<and> has_shape ''YYYY-MM-DD HH'' h
             \<and> has_shape ''YYYY-MM-DD HH:MM'' m \<and> has_shape ''YYYY-MM-DD HH:MM:SS'' s"
    if y: "1000 \<le> year dt \<and> year dt \<le> 9999"
  proof -
    from y have y1: "1000 \<le> year dt" and y2: "year dt \<le> 9999" by simp_all
    show ?thesis
      by (intro exI conjI)
         (rule k shape_day [OF y1 y2] shape_hour [OF y1 y2] shape_minute [OF y1 y2]
            shape_second [OF y1 y2])+
  qed
  have lens: "\<exists>d h m s.
             convert_datetime_precision dateutil_parse ts ''d'' = Inr d
           \<and> convert_datetime_precision dateutil_parse ts ''h'' = Inr h
           \<and> convert_datetime_precision dateutil_parse ts ''M'' = Inr m
           \<and> convert_datetime_precision dateutil_parse ts ''s'' = Inr s
           \<and> 0 < length d \<and> length h = length d + 3 \<and> length m = length h + 3
           \<and> length s = length m + 3"
    unfolding k using decimal_not_empty [of "year dt"] by (simp add: pad2_def)
  have bad: "convert_datetime_precision dateutil_parse ts time_interval = Inl ValueError
             \<and> (\<forall>ts'. \<exists>e. convert_datetime_precision dateutil_parse ts' time_interval = Inl e)"
    if "time_interval \<notin> {''d'', ''h'', ''M'', ''s''}"
    using that convert_unknown_code [OF a, of time_interval]
      convert_unknown_code_raises [of time_interval dateutil_parse] by blast
  have sh: "1000 \<le> year dt \<and> year dt \<le> 9999 \<longrightarrow>
            (\<exists>d h m s.
               convert_datetime_precision dateutil_parse ts ''d'' = Inr d
             \<and> convert_datetime_precision dateutil_parse ts ''h'' = Inr h
             \<and> convert_datetime_precision dateutil_parse ts ''M'' = Inr m
             \<and> convert_datetime_precision dateutil_parse ts ''s'' = Inr s
             \<and> has_shape ''YYYY-MM-DD'' d \<and> has_shape ''YYYY-MM-DD HH'' h
             \<and> has_shape ''YYYY-MM-DD HH:MM'' m \<and> has_shape ''YYYY-MM-DD HH:MM:SS'' s)"
    using shapes by (rule impI)
  have bd: "time_interval \<notin> {''d'', ''h'', ''M'', ''s''} \<longrightarrow>
            convert_datetime_precision dateutil_parse ts time_interval = Inl ValueError
            \<and> (\<forall>ts'. \<exists>e. convert_datetime_precision dateutil_parse ts' time_interval = Inl e)"
    using bad by (rule impI)
  have ot: "convert_datetime_precision dateutil_parse TsOther time_interval = Inl AttributeError"
    by (rule convert_no_datetime(1))
  have pf: "\<forall>s e. dateutil_parse s = Inl e \<longrightarrow>
            convert_datetime_precision dateutil_parse (TsStr s) time_interval = Inl e"
    by (intro allI impI) (rule convert_no_datetime(2))
  show ?thesis
    by (intro conjI) (rule k sh lens bd ot pf)+
qed

theorem convert_datetime_precision_codes_witness:
  "parse_example ''2021-01-01T00:00:00Z''
     = Inr \<lparr>year = 2021, month = 1, day = 1, hour = 0, minute = 0, second = 0\<rparr>
   \<and> convert_datetime_precision parse_example (TsStr ''2021-01-01T00:00:00Z'') ''h''
       = Inr ''2021-01-01 00''
   \<and> has_shape ''YYYY-MM-DD HH'' ''2021-01-01 00''
   \<and> ''x'' \<notin> {''d'', ''h'', ''M'', ''s''}
   \<and> convert_datetime_precision parse_example (TsStr ''2021-01-01T00:00:00Z'') ''x''
       = Inl ValueError"
proof -
  let ?dt = "\<lparr>year = 2021, month = 1, day = 1, hour = 0, minute = 0, second = 0\<rparr>"
  let ?ts = "TsStr ''2021-01-01T00:00:00Z''"
  have p: "parse_example ''2021-01-01T00:00:00Z'' = Inr ?dt"
    by (simp add: parse_example_def)
  then have a: "?ts = TsDatetime ?dt
           \<or> (?ts = TsStr ''2021-01-01T00:00:00Z''
               \<and> parse_example ''2021-01-01T00:00:00Z'' = Inr ?dt)"
    by simp
  note t = convert_datetime_precision_codes
         [where ts = ?ts and dt = ?dt and str = "''2021-01-01T00:00:00Z''"
            and dateutil_parse = parse_example and time_interval = "''x''", OF a]
  have x: "''x'' \<notin> {''d'', ''h'', ''M'', ''s''}" by simp
  have r: "decimal (year ?dt) @ ''-'' @ pad2 (month ?dt) @ ''-'' @ pad2 (day ?dt)
             @ '' '' @ pad2 (hour ?dt) = ''2021-01-01 00''"
    by (simp add: decimal.simps pad2_def digit_def)
  have h: "convert_datetime_precision parse_example ?ts ''h''
             = Inr (decimal (year ?dt) @ ''-'' @ pad2 (month ?dt) @ ''-'' @ pad2 (day ?dt)
                      @ '' '' @ pad2 (hour ?dt))"
    by (rule t [THEN conjunct2, THEN conjunct1])
  have h': "convert_datetime_precision parse_example ?ts ''h'' = Inr ''2021-01-01 00''"
    by (simp only: h r)
  have sh: "has_shape ''YYYY-MM-DD HH'' ''2021-01-01 00''"
    by (simp add: has_shape_def is_digit_def)
  from t [THEN conjunct2, THEN conjunct2, THEN conjunct2, THEN conjunct2, THEN conjunct2,
          THEN conjunct2, THEN conjunct1] x
  have v: "convert_datetime_precision parse_example ?ts ''x'' = Inl ValueError"
    by (rule mp [THEN conjunct1])
  from p h' sh x v show ?thesis by (intro conjI)
qed

text \<open>
  C7 as stated fails for the years before 1000: the year 999 is rendered in three digits,
  and the result for the code \<open>d\<close> is not of the shape \<open>YYYY-MM-DD\<close>.
\<close>

theorem convert_datetime_precision_counterexample:
  "convert_datetime_precision parse_example
     (TsDatetime \<lparr>year = 999, month = 1, day = 2, hour = 3, minute = 4, second = 5\<rparr>) ''d''
     = Inr ''999-01-02''
   \<and> convert_datetime_precision parse_example
     (TsDatetime \<lparr>year = 999, month = 1, day = 2, hour = 3, minute = 4, second = 5\<rparr>) ''s''
     = Inr ''999-01-02 03:04:05''
   \<and> \<not> has_shape ''YYYY-MM-DD'' ''999-01-02''
   \<and> \<not> has_shape ''YYYY-MM-DD HH:MM:SS'' ''999-01-02 03:04:05''"
  by (simp add: convert_datetime_precision_def as_datetime_def bnd_def Let_def directive_def
        decimal.simps pad2_def digit_def has_shape_def)

subsection \<open>Envelope extraction\<close>

text \<open>
  C2. For a response whose body decodes as JSON: with status 200 the result is the
  body's \<open>data\<close> field (the value under that key when the body is an object that has it)
  and nothing is printed; with any other status the decoded body is printed and the
  result is \<^verbatim>\<open>None\<close>.
\<close>

theorem get_response_data_envelope:
  assumes "decoded resp = Some body"
  shows "(status_code resp = 200 \<longrightarrow>
            get_response_data resp w = (py_getitem body ''data'', w))
       \<and> (status_code resp = 200 \<and> body = JObj kvs \<and> map_of kvs ''data'' = Some d \<longrightarrow>
            get_response_data resp w = (Inr d, w))
       \<and> (status_code resp \<noteq> 200 \<longrightarrow>
            get_response_data resp w
              = (Inr JNull, w\<lparr>printed := printed w @ [PrintJson body]\<rparr>))"
  using assms by (simp add: get_response_data_def)

theorem get_response_data_envelope_witness:
  "decoded \<lparr>status_code = 200, decoded = Some (JObj [(''data'', JNum 7)])\<rparr>
     = Some (JObj [(''data'', JNum 7)])
   \<and> get_response_data \<lparr>status_code = 200, decoded = Some (JObj [(''data'', JNum 7)])\<rparr> world0
       = (Inr (JNum 7), world0)
   \<and> decoded \<lparr>status_code = 500, decoded = Some (JObj [])\<rparr> = Some (JObj [])
   \<and> get_response_data \<lparr>status_code = 500, decoded = Some (JObj [])\<rparr> world0
       = (Inr JNull, world0\<lparr>printed := printed world0 @ [PrintJson (JObj [])]\<rparr>)"
proof -
  let ?ok = "\<lparr>status_code = 200, decoded = Some (JObj [(''data'', JNum 7)])\<rparr>"
  let ?bad = "\<lparr>status_code = 500, decoded = Some (JObj [])\<rparr>"
  have a: "decoded ?ok = Some (JObj [(''data'', JNum 7)])" by simp
  have b: "decoded ?bad = Some (JObj [])" by simp
  from get_response_data_envelope [OF a, where kvs = "[(''data'', JNum 7)]" and d = "JNum 7"
      and w = world0]
  have "get_response_data ?ok world0 = (Inr (JNum 7), world0)" by simp
  moreover from get_response_data_envelope [OF b, where kvs = "[]" and d = JNull and w = world0]
  have "get_response_data ?bad world0
          = (Inr JNull, world0\<lparr>printed := printed world0 @ [PrintJson (JObj [])]\<rparr>)" by simp
  ultimately show ?thesis by simp
qed
subsection \<open>Requests and retries\<close>

lemma session_effect:
  "config (snd (session fresh c)) = config c"
  "url (snd (session fresh c)) = url c"
  "default_timeout (snd (session fresh c)) = default_timeout c"
  "private_session (snd (session fresh c)) = Some (fst (session fresh c))"
  "keeps_session c (snd (session fresh c))"
  by (simp_all add: session_def config_def keeps_session_def Let_def split: option.splits)

lemma keeps_session_trans:
  "keeps_session c c1 \<Longrightarrow> keeps_session c1 c2 \<Longrightarrow> keeps_session c c2"
  by (auto simp: keeps_session_def split: option.splits)

lemma keeps_session_refl: "keeps_session c c"
  by (simp add: keeps_session_def split: option.splits)

lemma session_get_effect:
  assumes "session_get fresh srv u params t c w = (r, c', w')"
  shows "c' = snd (session fresh c)"
    and "requests_sent w' = requests_sent w
           @ [\<lparr>req_url = u, req_params = params, req_timeout = t,
                req_headers = headers (fst (session fresh c))\<rparr>]"
    and "slept w' = slept w"
    and "printed w' = printed w"
    and "r = srv (requests_sent w')"
  using assms by (auto simp: session_get_def Let_def split: prod.splits)

lemma retry_loop_effect:
  "retry_loop fresh srv endpoint retry params attempt resp c w = (r, c', w') \<Longrightarrow>
     config c' = config c \<and> keeps_session c c' \<and> printed w' = printed w
     \<and> (\<exists>reqs. requests_sent w' = requests_sent w @ reqs
          \<and> (\<forall>q \<in> set reqs. req_url q = url c @ endpoint \<and> req_params q = params)
          \<and> slept w' = slept w @ replicate (length reqs) 5
          \<and> int (length reqs) \<le> max 1 (retry - attempt + 1))"
proof (induction fresh srv endpoint retry params attempt resp c w arbitrary: r c' w'
         rule: retry_loop.induct)
  case (1 fresh srv endpoint retry params attempt resp c w)
  show ?case
  proof (cases "status_code resp \<noteq> 200")
    case False
    with "1.prems" have "c' = c" "w' = w"
      by (simp_all add: retry_loop.simps [of fresh srv endpoint retry params attempt resp c w])
    then show ?thesis by (simp add: keeps_session_refl)
  next
    case True
    obtain x c1 w1 where get:
      "session_get fresh srv (url c @ endpoint) params (default_timeout c) c
         (w\<lparr>slept := slept w @ [5]\<rparr>) = (x, c1, w1)"
      by (cases "session_get fresh srv (url c @ endpoint) params (default_timeout c) c
                   (w\<lparr>slept := slept w @ [5]\<rparr>)") auto
    note eff = session_get_effect [OF get]
    have c1: "config c1 = config c" "keeps_session c c1" "url c1 = url c"
      using eff(1) by (simp_all add: session_effect [where c = c and fresh = fresh])
    define req where "req = \<lparr>req_url = url c @ endpoint, req_params = params,
        req_timeout = default_timeout c, req_headers = headers (fst (session fresh c))\<rparr>"
    have w1: "requests_sent w1 = requests_sent w @ [req]" "slept w1 = slept w @ [5]"
        "printed w1 = printed w"
      using eff(2,3,4) by (simp_all add: req_def)
    have one: "config c1 = config c \<and> keeps_session c c1 \<and> printed w1 = printed w
       \<and> (\<exists>reqs. requests_sent w1 = requests_sent w @ reqs
            \<and> (\<forall>q \<in> set reqs. req_url q = url c @ endpoint \<and> req_params q = params)
            \<and> slept w1 = slept w @ replicate (length reqs) 5
            \<and> int (length reqs) \<le> max 1 (retry - attempt + 1))"
      using c1 w1 by (intro conjI exI [of _ "[req]"]) (simp_all add: req_def)
    show ?thesis
    proof (cases x)
      case (Inl e)
      with "1.prems" True get have "c' = c1" "w' = w1"
        by (simp_all add: retry_loop.simps [of fresh srv endpoint retry params attempt resp c w])
      with one show ?thesis by simp
    next
      case (Inr b)
      show ?thesis
      proof (cases "retry < attempt + 1")
        case True
        with "1.prems" \<open>status_code resp \<noteq> 200\<close> get Inr have "c' = c1" "w' = w1"
          by (simp_all add: retry_loop.simps [of fresh srv endpoint retry params attempt resp c w])
        with one show ?thesis by simp
      next
        case False
        with "1.prems" \<open>status_code resp \<noteq> 200\<close> get Inr
        have rec: "retry_loop fresh srv endpoint retry params (attempt + 1) b c1 w1 = (r, c', w')"
          by (simp add: retry_loop.simps [of fresh srv endpoint retry params attempt resp c w])
        have "config c' = config c1 \<and> keeps_session c1 c' \<and> printed w' = printed w1
          \<and> (\<exists>reqs. requests_sent w' = requests_sent w1 @ reqs
               \<and> (\<forall>q \<in> set reqs. req_url q = url c1 @ endpoint \<and> req_params q = params)
               \<and> slept w' = slept w1 @ replicate (length reqs) 5
               \<and> int (length reqs) \<le> max 1 (retry - (attempt + 1) + 1))"
          using "1.IH" [OF \<open>status_code resp \<noteq> 200\<close> get [symmetric] refl Inr False rec] .
        then obtain reqs where ih:
          "config c' = config c1" "keeps_session c1 c'" "printed w' = printed w1"
          "requests_sent w' = requests_sent w1 @ reqs"
          "\<forall>q \<in> set reqs. req_url q = url c1 @ endpoint \<and> req_params q = params"
          "slept w' = slept w1 @ replicate (length reqs) 5"
          "int (length reqs) \<le> max 1 (retry - (attempt + 1) + 1)"
          by blast
        have len: "int (length (req # reqs)) \<le> max 1 (retry - attempt + 1)"
          using ih(7) False by simp
        have sl: "slept w' = slept w @ replicate (length (req # reqs)) 5"
          using ih(6) w1(2) by (simp add: replicate_append_same)
        have all: "\<forall>q \<in> set (req # reqs). req_url q = url c @ endpoint \<and> req_params q = params"
          using ih(5) c1(3) by (simp add: req_def)
        have sent: "requests_sent w' = requests_sent w @ (req # reqs)"
          using ih(4) w1(1) by simp
        from ih(1,2,3) c1 w1(3) keeps_session_trans [OF c1(2) ih(2)] sent all sl len
        show ?thesis by (intro conjI exI [of _ "req # reqs"]) simp_all
      qed
    qed
  qed
qed

lemma keeps_session_some:
  "keeps_session c c' \<Longrightarrow> private_session c = Some s \<Longrightarrow> private_session c' = Some s"
  by (simp add: keeps_session_def)

lemma get_response_data_effect:
  assumes "get_response_data resp w = (d, w')"
  shows "requests_sent w' = requests_sent w"
    and "slept w' = slept w"
    and "\<exists>out. printed w' = printed w @ out"
  using assms by (auto simp: get_response_data_def split: option.splits if_splits)

text \<open>
  What a call of \<open>get_response\<close> leaves behind: the configuration as it was, a session
  (the one the client had, if it had one), at least one request, every request to the
  endpoint with the given parameters, and some printing after what was printed before.
\<close>

lemma get_response_effect:
  assumes "get_response fresh srv endpoint retry params c w = (r, c', w')"
  shows "config c' = config c \<and> keeps_session c c'
    \<and> private_session c' = Some (fst (session fresh c))
    \<and> (\<exists>reqs. requests_sent w' = requests_sent w @ reqs \<and> reqs \<noteq> []
          \<and> (\<forall>q \<in> set reqs. req_url q = url c @ endpoint \<and> req_params q = params))
    \<and> (\<exists>out. printed w' = printed w @ out)"
proof -
  obtain x c1 w1 where
    get: "session_get fresh srv (url c @ endpoint) params (default_timeout c) c w = (x, c1, w1)"
    by (cases "session_get fresh srv (url c @ endpoint) params (default_timeout c) c w") auto
  note eff = session_get_effect [OF get]
  define req where
    "req = \<lparr>req_url = url c @ endpoint, req_params = params,
            req_timeout = default_timeout c, req_headers = headers (fst (session fresh c))\<rparr>"
  have c1: "config c1 = config c" "keeps_session c c1" "url c1 = url c"
    "private_session c1 = Some (fst (session fresh c))"
    using eff(1) session_effect [where c = c and fresh = fresh] by simp_all
  have w1: "requests_sent w1 = requests_sent w @ [req]" "printed w1 = printed w"
    using eff by (simp_all add: req_def)
  have req: "req_url req = url c @ endpoint" "req_params req = params"
    by (simp_all add: req_def)
  show ?thesis
  proof (cases x)
    case (Inl e)
    with assms get have "c' = c1" "w' = w1"
      by (simp_all add: get_response_def)
    with c1 w1 req show ?thesis by simp
  next
    case (Inr resp)
    obtain r2 c2 w2 where
      loop: "retry_loop fresh srv endpoint retry params 0 resp c1 w1 = (r2, c2, w2)"
      by (cases "retry_loop fresh srv endpoint retry params 0 resp c1 w1") auto
    from retry_loop_effect [OF loop] obtain reqs where
      l: "config c2 = config c1" "keeps_session c1 c2" "printed w2 = printed w1"
         "requests_sent w2 = requests_sent w1 @ reqs"
         "\<forall>q \<in> set reqs. req_url q = url c1 @ endpoint \<and> req_params q = params"
      by blast
    have last: "c' = c2 \<and> requests_sent w' = requests_sent w2
        \<and> (\<exists>out. printed w' = printed w2 @ out)"
    proof (cases r2)
      case (Inl e)
      with assms get loop Inr show ?thesis by (simp add: get_response_def)
    next
      case r2: (Inr resp')
      obtain d w3 where d: "get_response_data resp' w2 = (d, w3)"
        by (cases "get_response_data resp' w2") auto
      from assms get loop Inr r2 d have "c' = c2" "w' = w3"
        by (simp_all add: get_response_def)
      with get_response_data_effect [OF d] show ?thesis by simp
    qed
    have "config c' = config c"
      using last l(1) c1(1) by simp
    moreover have "keeps_session c c'"
      using last keeps_session_trans [OF c1(2) l(2)] by simp
    moreover have "private_session c' = Some (fst (session fresh c))"
      using last keeps_session_some [OF l(2) c1(4)] by simp
    moreover have "requests_sent w' = requests_sent w @ (req # reqs)"
      using last l(4) w1(1) by simp
    moreover have "\<forall>q \<in> set (req # reqs). req_url q = url c @ endpoint \<and> req_params q = params"
      using l(5) c1(3) req by simp
    moreover have "\<exists>out. printed w' = printed w @ out"
      using last l(3) w1(2) by simp
    ultimately show ?thesis by blast
  qed
qed

text \<open>
  A service that always answers 500 is asked \<open>retry - attempt + 1\<close> more times by the loop
  entered at \<open>attempt\<close>: the test that ends the loop is \<^verbatim>\<open>attempt > retry\<close>, made after
  the increment.
\<close>

lemma retry_loop_always_500:
  "status_code resp \<noteq> 200 \<Longrightarrow> attempt \<le> retry \<Longrightarrow>
     \<exists>c' w'. retry_loop fresh always_500 endpoint retry params attempt resp c w
                = (Inr \<lparr>status_code = 500, decoded = Some (JObj [])\<rparr>, c', w')
       \<and> length (requests_sent w') = length (requests_sent w) + nat (retry - attempt) + 1
       \<and> slept w' = slept w @ replicate (nat (retry - attempt) + 1) 5
       \<and> printed w' = printed w"
proof (induction fresh always_500 endpoint retry params attempt resp c w rule: retry_loop.induct)
  case (1 fresh endpoint retry params attempt resp c w)
  let ?r = "\<lparr>status_code = 500, decoded = Some (JObj [])\<rparr>"
  obtain x c1 w1 where
    get: "session_get fresh always_500 (url c @ endpoint) params (default_timeout c) c
            (w\<lparr>slept := slept w @ [5]\<rparr>) = (x, c1, w1)"
    by (cases "session_get fresh always_500 (url c @ endpoint) params (default_timeout c) c
            (w\<lparr>slept := slept w @ [5]\<rparr>)") auto
  note eff = session_get_effect [OF get]
  have x: "x = Inr ?r" using eff(5) by (simp add: always_500_def)
  have w1: "length (requests_sent w1) = length (requests_sent w) + 1"
    "slept w1 = slept w @ [5]" "printed w1 = printed w"
    using eff by simp_all
  show ?case
  proof (cases "retry < attempt + 1")
    case True
    with "1.prems" have "retry - attempt = 0" by simp
    moreover from True "1.prems"(1) get x
    have "retry_loop fresh always_500 endpoint retry params attempt resp c w = (Inr ?r, c1, w1)"
      by (subst retry_loop.simps) simp
    ultimately show ?thesis using w1 by simp
  next
    case False
    have ne: "status_code ?r \<noteq> 200" by simp
    from False have le: "attempt + 1 \<le> retry" by simp
    from "1.hyps" [OF "1.prems"(1) get [symmetric] refl x False ne le]
    obtain c' w' where
      rec: "retry_loop fresh always_500 endpoint retry params (attempt + 1) ?r c1 w1 = (Inr ?r, c', w')"
      and n: "length (requests_sent w') = length (requests_sent w1) + nat (retry - (attempt + 1)) + 1"
      and s: "slept w' = slept w1 @ replicate (nat (retry - (attempt + 1)) + 1) 5"
      and p: "printed w' = printed w1"
      by blast
    from False "1.prems"(1) get x rec
    have "retry_loop fresh always_500 endpoint retry params attempt resp c w = (Inr ?r, c', w')"
      by (subst retry_loop.simps) simp
    moreover have k: "nat (retry - attempt) = nat (retry - (attempt + 1)) + 1"
      using le by simp
    moreover have "slept w' = slept w @ replicate (nat (retry - attempt) + 1) 5"
      using s w1(2) k by (simp add: replicate_append_same)
    ultimately show ?thesis using n p w1 by simp
  qed
qed

text \<open>
  C1. The claim is that \<^verbatim>\<open>__get_response\<close> makes at most \<open>r\<close> attempts beyond the first,
  at most \<open>1 + r\<close> requests in all. The code makes one more: against a service that
  answers every request with status 500, a call with a retry budget \<open>r \<ge> 0\<close> sends
  exactly \<open>r + 2\<close> requests and sleeps 5 seconds \<open>r + 1\<close> times, then prints the decoded
  body of the last response and returns \<^verbatim>\<open>None\<close>.
\<close>

theorem get_response_retry_overrun:
  assumes "0 \<le> retry"
  shows "\<exists>c' w'. get_response fresh always_500 endpoint retry params c w = (Inr JNull, c', w')
       \<and> length (requests_sent w') = length (requests_sent w) + nat retry + 2
       \<and> slept w' = slept w @ replicate (nat retry + 1) 5
       \<and> printed w' = printed w @ [PrintJson (JObj [])]"
proof -
  let ?r = "\<lparr>status_code = 500, decoded = Some (JObj [])\<rparr>"
  obtain x c1 w1 where
    get: "session_get fresh always_500 (url c @ endpoint) params (default_timeout c) c w = (x, c1, w1)"
    by (cases "session_get fresh always_500 (url c @ endpoint) params (default_timeout c) c w") auto
  note eff = session_get_effect [OF get]
  have x: "x = Inr ?r" using eff(5) by (simp add: always_500_def)
  have ne: "status_code ?r \<noteq> 200" by simp
  from retry_loop_always_500
         [where fresh = fresh and endpoint = endpoint and params = params and c = c1
            and w = w1, OF ne assms]
  obtain c2 w2 where
    loop: "retry_loop fresh always_500 endpoint retry params 0 ?r c1 w1 = (Inr ?r, c2, w2)"
    and n: "length (requests_sent w2) = length (requests_sent w1) + nat (retry - 0) + 1"
    and s: "slept w2 = slept w1 @ replicate (nat (retry - 0) + 1) 5"
    and p: "printed w2 = printed w1"
    by blast
  have "get_response fresh always_500 endpoint retry params c w
          = (Inr JNull, c2, w2\<lparr>printed := printed w2 @ [PrintJson (JObj [])]\<rparr>)"
    using get x loop by (simp add: get_response_def get_response_data_def)
  then show ?thesis using n s p eff by simp
qed

theorem get_response_retry_overrun_witness:
  "(0::int) \<le> 1
   \<and> (\<exists>c' w'. get_response session0 always_500 ''/cryptocurrency/map'' 1 None client0 world0
                 = (Inr JNull, c', w')
        \<and> length (requests_sent w') = 3 \<and> slept w' = [5, 5]
        \<and> printed w' = [PrintJson (JObj [])])"
proof -
  have z: "(0::int) \<le> 1" by simp
  from get_response_retry_overrun
         [where retry = 1 and fresh = session0 and endpoint = "''/cryptocurrency/map''"
            and params = None and c = client0 and w = world0, OF z]
  obtain c' w' where
    g: "get_response session0 always_500 ''/cryptocurrency/map'' 1 None client0 world0
          = (Inr JNull, c', w')"
    and n: "length (requests_sent w') = length (requests_sent world0) + nat 1 + 2"
    and s: "slept w' = slept world0 @ replicate (nat 1 + 1) 5"
    and p: "printed w' = printed world0 @ [PrintJson (JObj [])]"
    by blast
  from n have n': "length (requests_sent w') = 3" by (simp add: world0_def)
  from s have s': "slept w' = [5, 5]" by (simp add: world0_def numeral_2_eq_2)
  from p have p': "printed w' = [PrintJson (JObj [])]" by (simp add: world0_def)
  from z g n' s' p' show ?thesis by blast
qed



text \<open>
  C9. Whatever public operation runs on a client, the seven attributes that the
  constructor fixed are what they were. The client then holds a session, and reading
  \<open>session\<close> again returns that session and changes nothing. If the client held a
  session before the operation, it is that one; if it held none, the session carries the
  JSON content type and the API key in its headers.
\<close>

theorem configuration_is_fixed:
  assumes "client_after fresh srv dateutil_parse op c w = c'"
  shows "api_key c' = api_key c \<and> version c' = version c
       \<and> default_timeout c' = default_timeout c \<and> url c' = url c
       \<and> default_historical_data_length c' = default_historical_data_length c
       \<and> default_start_date c' = default_start_date c
       \<and> default_end_date c' = default_end_date c
       \<and> (\<exists>s. private_session c' = Some s \<and> session fresh c' = (s, c')
            \<and> (case private_session c of
                  Some s0 \<Rightarrow> s = s0
                | None \<Rightarrow>
                    map_of (headers s) ''Content-Type'' = Some ''application/json''
                  \<and> map_of (headers s) ''X-CMC_PRO_API_KEY'' = Some (api_key c)))"
proof -
  have "config c' = config c \<and> private_session c' = Some (fst (session fresh c))"
  proof (cases op)
    case Session
    with assms show ?thesis using session_effect [where c = c and fresh = fresh] by (simp add: client_after_def)
  next
    case GetTickerList
    obtain r c1 w1 where g: "get_response fresh srv ''/cryptocurrency/map'' 1 None c w = (r, c1, w1)"
      by (cases "get_response fresh srv ''/cryptocurrency/map'' 1 None c w") auto
    with assms GetTickerList have "c' = c1"
      by (simp add: client_after_def get_ticker_list_def)
    with get_response_effect [OF g] show ?thesis by simp
  next
    case (GetMetaDataFromId ticker_id)
    obtain r c1 w1 where
      g: "get_response fresh srv ''/cryptocurrency/info'' 1 (Some [(''id'', ticker_id)]) c w = (r, c1, w1)"
      by (cases "get_response fresh srv ''/cryptocurrency/info'' 1 (Some [(''id'', ticker_id)]) c w") auto
    with assms GetMetaDataFromId have "c' = c1"
      by (simp add: client_after_def get_meta_data_from_id_def)
    with get_response_effect [OF g] show ?thesis by simp
  next
    case (GetMarketQuotesFromId ticker_id time_start time_end convert_currency)
    define t_start where
      "t_start = (case time_start of None \<Rightarrow> default_start_date c | Some t \<Rightarrow> t)"
    define t_end where
      "t_end = (case time_end of None \<Rightarrow> default_end_date c | Some t \<Rightarrow> t)"
    define w0 where
      "w0 = (if t_start > t_end then w\<lparr>printed := printed w @ [range_warning]\<rparr> else w)"
    obtain r c1 w1 where
      g: "get_response fresh srv ''/cryptocurrency/quotes/historical'' 1
            (Some (quotes_params ticker_id t_start t_end convert_currency)) c w0 = (r, c1, w1)"
      by (cases "get_response fresh srv ''/cryptocurrency/quotes/historical'' 1
            (Some (quotes_params ticker_id t_start t_end convert_currency)) c w0") auto
    with assms GetMarketQuotesFromId have "c' = c1"
      by (auto simp: client_after_def get_market_quotes_from_id_def Let_def
            t_start_def t_end_def w0_def split: sum.splits)
    with get_response_effect [OF g] show ?thesis by simp
  next
    case (GetOhlcvFromId ticker_id convert_currency)
    let ?ps = "Some [(''id'', ticker_id), (''time_start'', JNum (default_start_date c)),
                    (''time_end'', JNum (default_end_date c)), (''interval'', JStr ''1d''),
                    (''convert'', JStr convert_currency)]"
    obtain r c1 w1 where
      g: "get_response fresh srv ''/cryptocurrency/ohlcv/historical'' 1 ?ps c w = (r, c1, w1)"
      by (cases "get_response fresh srv ''/cryptocurrency/ohlcv/historical'' 1 ?ps c w") auto
    with assms GetOhlcvFromId have "c' = c1"
      by (auto simp: client_after_def get_ohlcv_from_id_def split: sum.splits)
    with get_response_effect [OF g] show ?thesis by simp
  qed
  then have cfg: "config c' = config c" and s: "private_session c' = Some (fst (session fresh c))"
    by simp_all
  have "session fresh c' = (fst (session fresh c), c')"
    using s by (simp add: session_def)
  moreover have "case private_session c of
                  Some s0 \<Rightarrow> fst (session fresh c) = s0
                | None \<Rightarrow>
                    map_of (headers (fst (session fresh c))) ''Content-Type'' = Some ''application/json''
                  \<and> map_of (headers (fst (session fresh c))) ''X-CMC_PRO_API_KEY'' = Some (api_key c)"
    by (simp add: session_def Let_def update_conv' split: option.splits)
  ultimately show ?thesis using cfg s by (simp add: config_def)
qed

theorem configuration_is_fixed_witness:
  "url (client_after session0 always_500 parse_example GetTickerList client0 world0)
     = ''https://sandbox-api.coinmarketcap.com/v1''
   \<and> (\<exists>s. private_session (client_after session0 always_500 parse_example GetTickerList client0 world0)
             = Some s
        \<and> map_of (headers s) ''X-CMC_PRO_API_KEY'' = Some ''key'')"
  using configuration_is_fixed
          [OF refl, where fresh = session0 and srv = always_500
             and dateutil_parse = parse_example and op = GetTickerList and c = client0
             and w = world0]
  by (auto simp: client0_def init_def SANDBOX_BASE_URL_def Let_def session_def)

end
